theory Spec2Isabelle
  imports Main "HOL-Library.Word" "HOL-Library.Sublist"
begin

section \<open>JavaScript values used by the server\<close>

text \<open>
  The server is \<^verbatim>\<open>src/index.ts\<close>. Header names, header values, URLs and environment
  variables are ASCII texts and are modelled as \<^typ>\<open>string\<close>. A value of TypeScript type
  \<^verbatim>\<open>unknown\<close> is either a string or something else the code never looks into.

  A plain object \<^verbatim>\<open>Record<string, T>\<close> is the list of its own enumerable properties in
  insertion order, with pairwise distinct names; its prototype is \<^verbatim>\<open>Object.prototype\<close>.
  The order of names that are array indices, which JavaScript lists first, is outside
  the model.
\<close>

datatype 'a jsval = JString string | JOther 'a

type_synonym 'v obj = "(string \<times> 'v) list"

text \<open>
  Defining an own property, as \<^verbatim>\<open>JSON.parse\<close>, an object literal, a spread and
  \<^verbatim>\<open>Map.set\<close> do: a name that is already there keeps its position and gets the new
  value; a new name goes to the end.
\<close>

fun obj_set :: "'v obj \<Rightarrow> string \<Rightarrow> 'v \<Rightarrow> 'v obj" where
  "obj_set [] k v = [(k, v)]"
| "obj_set ((k', v') # kvs) k v =
     (if k' = k then (k, v) # kvs else (k', v') # obj_set kvs k v)"


definition obj_keys :: "'v obj \<Rightarrow> string list" where
  "obj_keys ob = map fst ob"

text \<open>\<^verbatim>\<open>Object.hasOwn(ob, key)\<close>\<close>

definition obj_has :: "string \<Rightarrow> 'v obj \<Rightarrow> bool" where
  "obj_has k ob = (k \<in> set (obj_keys ob))"

text \<open>
  The properties every plain object inherits from \<^verbatim>\<open>Object.prototype\<close>, and
  \<^verbatim>\<open>key in ob\<close>, which is true of own and of inherited names.
\<close>

definition Object_prototype_names :: "string list" where
  "Object_prototype_names =
     [''constructor'', ''__defineGetter__'', ''__defineSetter__'', ''hasOwnProperty'',
      ''__lookupGetter__'', ''__lookupSetter__'', ''isPrototypeOf'', ''propertyIsEnumerable'',
      ''toString'', ''valueOf'', ''__proto__'', ''toLocaleString'']"

definition obj_in :: "string \<Rightarrow> 'v obj \<Rightarrow> bool" where
  "obj_in k ob = (obj_has k ob \<or> k \<in> set Object_prototype_names)"

text \<open>
  The assignment \<^verbatim>\<open>ob[key] = value\<close>. Under the name \<^verbatim>\<open>__proto__\<close> an object that has
  no own property of that name runs the setter inherited from \<^verbatim>\<open>Object.prototype\<close>,
  and no own property is made: the setter ignores a string, and an object given to it
  becomes the prototype, which nothing reads here, because the only object looked into
  with \<^verbatim>\<open>in\<close> holds strings from the environment. Any other assignment defines or updates
  the own property.
\<close>

definition obj_put :: "'v obj \<Rightarrow> string \<Rightarrow> 'v \<Rightarrow> 'v obj" where
  "obj_put ob k v = (if k = ''__proto__'' \<and> \<not> obj_has k ob then ob else obj_set ob k v)"

text \<open>\<^verbatim>\<open>Object.assign(target, src)\<close> assigns each own property of \<open>src\<close> in turn.\<close>

fun Object_assign :: "'v obj \<Rightarrow> 'v obj \<Rightarrow> 'v obj" where
  "Object_assign target [] = target"
| "Object_assign target ((k, v) # src) = Object_assign (obj_put target k v) src"

text \<open>\<^verbatim>\<open>xs.join(sep)\<close>\<close>

fun join :: "string \<Rightarrow> string list \<Rightarrow> string" where
  "join sep [] = []"
| "join sep [x] = x"
| "join sep (x # y # ys) = x @ sep @ join sep (y # ys)"

definition lower_char :: "char \<Rightarrow> char" where
  "lower_char c =
     (let n = (of_char c :: nat) in if 65 \<le> n \<and> n \<le> 90 then char_of (n + 32) else c)"

definition toLowerCase :: "string \<Rightarrow> string" where
  "toLowerCase s = map lower_char s"

text \<open>JavaScript truthiness of an optional string: \<^verbatim>\<open>undefined\<close> and \<^verbatim>\<open>''\<close> are falsy.\<close>

fun truthy :: "string option \<Rightarrow> bool" where
  "truthy None = False"
| "truthy (Some s) = (s \<noteq> [])"

section \<open>Process configuration\<close>

text \<open>
  \<^verbatim>\<open>process.env\<close> is the list of the environment's entries; \<^verbatim>\<open>process.env.NAME\<close> is a
  lookup in it. The constants of \<^verbatim>\<open>CONFIG\<close> keep the values of the source.
\<close>

type_synonym env = "(string \<times> string) list"

definition getenv :: "env \<Rightarrow> string \<Rightarrow> string option" where
  "getenv e name = map_of e name"

definition SAFE_HEADERS :: "string list" where
  "SAFE_HEADERS =
     [''accept'', ''accept-language'', ''content-type'', ''user-agent'', ''cache-control'',
      ''if-match'', ''if-none-match'', ''if-modified-since'', ''if-unmodified-since'']"

definition SENSITIVE_HEADERS :: "string list" where
  "SENSITIVE_HEADERS =
     [''authorization'', ''cookie'', ''set-cookie'', ''x-api-key'', ''x-auth-token'',
      ''proxy-authorization'', ''www-authenticate'']"

definition MAX_CONCURRENT_REQUESTS :: nat where "MAX_CONCURRENT_REQUESTS = 10"
definition MAX_URL_LENGTH :: nat where "MAX_URL_LENGTH = 2048"
definition MAX_HEADER_VALUE_LENGTH :: nat where "MAX_HEADER_VALUE_LENGTH = 8192"
definition MAX_CUSTOM_HEADERS :: nat where "MAX_CUSTOM_HEADERS = 50"
definition RATE_LIMIT_WINDOW :: int where "RATE_LIMIT_WINDOW = 60000"
definition MAX_REQUESTS_PER_WINDOW :: nat where "MAX_REQUESTS_PER_WINDOW = 100"

text \<open>\<^verbatim>\<open>HEADER_PREFIX = /^header_/i\<close> and \<^verbatim>\<open>URL_PATTERN = /^(https?:\/\/|www\.)/i\<close>\<close>

definition HEADER_PREFIX_test :: "string \<Rightarrow> bool" where
  "HEADER_PREFIX_test key = (toLowerCase (take 7 key) = ''header_'')"

definition URL_PATTERN_test :: "string \<Rightarrow> bool" where
  "URL_PATTERN_test s =
     (toLowerCase (take 7 s) = ''http://'' \<or> toLowerCase (take 8 s) = ''https://''
      \<or> toLowerCase (take 4 s) = ''www.'')"

section \<open>Errors\<close>

datatype error_code = InvalidParams | InvalidRequest | MethodNotFound

datatype reason =
    Input_exceeds_maximum_length nat
  | Input_contains_invalid_characters
  | Too_many_headers nat
  | REST_BASE_URL_is_not_configured
  | REST_BASE_URL_is_configured
  | Invalid_host_format
  | Invalid_test_endpoint_arguments
  | Rate_limit_exceeded
  | Server_too_busy

datatype mcp_error = McpError error_code reason

section \<open>Input sanitization\<close>

text \<open>The character class \<^verbatim>\<open>[\x00-\x08\x0B\x0C\x0E-\x1F\x7F]\<close> that is removed.\<close>

definition is_control :: "char \<Rightarrow> bool" where
  "is_control c =
     (let n = (of_char c :: nat) in
        n \<le> 8 \<or> n = 11 \<or> n = 12 \<or> (14 \<le> n \<and> n \<le> 31) \<or> n = 127)"

text \<open>The header-name pattern \<^verbatim>\<open>/^[a-zA-Z0-9_-]+$/\<close>\<close>

definition is_name_char :: "char \<Rightarrow> bool" where
  "is_name_char c =
     (let n = (of_char c :: nat) in
        (97 \<le> n \<and> n \<le> 122) \<or> (65 \<le> n \<and> n \<le> 90) \<or> (48 \<le> n \<and> n \<le> 57)
        \<or> n = 95 \<or> n = 45)"

definition name_pattern :: "string \<Rightarrow> bool" where
  "name_pattern s = (s \<noteq> [] \<and> list_all is_name_char s)"

text \<open>
  \<^verbatim>\<open>validateAndSanitizeInput(input, maxLength, allowedChars?)\<close>; the optional pattern is an
  optional predicate.
\<close>

definition validateAndSanitizeInput ::
  "string \<Rightarrow> nat \<Rightarrow> (string \<Rightarrow> bool) option \<Rightarrow> mcp_error + string" where
  "validateAndSanitizeInput input maxLength allowedChars =
     (if length input > maxLength
      then Inl (McpError InvalidParams (Input_exceeds_maximum_length maxLength))
      else if (case allowedChars of None \<Rightarrow> False | Some p \<Rightarrow> \<not> p input)
      then Inl (McpError InvalidParams Input_contains_invalid_characters)
      else Inr (filter (\<lambda>c. \<not> is_control c) input))"

section \<open>Custom headers from the environment\<close>

text \<open>
  \<^verbatim>\<open>getCustomHeaders\<close> scans the environment once and memoizes the result; the environment
  does not change, so the memoized value is the value computed here. The loop stops at
  the entry that would exceed \<^verbatim>\<open>MAX_CUSTOM_HEADERS\<close>; an entry whose name or value fails
  validation is skipped; the value is assigned as it is and the entry is counted.
\<close>

fun getCustomHeaders_loop :: "env \<Rightarrow> string obj \<Rightarrow> nat \<Rightarrow> string obj" where
  "getCustomHeaders_loop [] headers headerCount = headers"
| "getCustomHeaders_loop ((key, val) # rest) headers headerCount =
     (if HEADER_PREFIX_test key then
        (if headerCount \<ge> MAX_CUSTOM_HEADERS then headers
         else
           (let headerName = drop 7 key in
            case validateAndSanitizeInput headerName 256 (Some name_pattern) of
              Inl _ \<Rightarrow> getCustomHeaders_loop rest headers headerCount
            | Inr _ \<Rightarrow>
               (case validateAndSanitizeInput val MAX_HEADER_VALUE_LENGTH None of
                  Inl _ \<Rightarrow> getCustomHeaders_loop rest headers headerCount
                | Inr _ \<Rightarrow>
                    getCustomHeaders_loop rest (obj_put headers headerName val)
                      (headerCount + 1))))
      else getCustomHeaders_loop rest headers headerCount)"

definition getCustomHeaders :: "env \<Rightarrow> string obj" where
  "getCustomHeaders e = getCustomHeaders_loop e [] 0"

section \<open>Header sanitizer\<close>

definition REDACTED :: "'a jsval" where
  "REDACTED = JString ''[REDACTED]''"

text \<open>
  One round of the loop of \<^verbatim>\<open>sanitizeHeaders\<close> over \<^verbatim>\<open>Object.entries(headers)\<close>: the
  entry \<open>(key, value)\<close> and the object \<open>sanitized\<close> built so far. Each branch assigns
  \<^verbatim>\<open>sanitized[key]\<close>, and the custom headers are asked with \<^verbatim>\<open>key in customHeaders\<close>.
\<close>

definition sanitize_entry ::
  "env \<Rightarrow> bool \<Rightarrow> 'a jsval obj \<Rightarrow> string \<times> 'a jsval \<Rightarrow> 'a jsval obj" where
  "sanitize_entry e isFromOptionalParams sanitized kv =
     (let key = fst kv; val = snd kv; lowerKey = toLowerCase key in
      if lowerKey \<in> set SENSITIVE_HEADERS then obj_put sanitized key REDACTED
      else if isFromOptionalParams then obj_put sanitized key val
      else if lowerKey = ''authorization''
              \<or> (truthy (getenv e ''AUTH_APIKEY_HEADER_NAME'')
                  \<and> Some lowerKey
                      = map_option toLowerCase (getenv e ''AUTH_APIKEY_HEADER_NAME''))
      then obj_put sanitized key REDACTED
      else if obj_in key (getCustomHeaders e)
      then obj_put sanitized key (if lowerKey \<in> set SAFE_HEADERS then val else REDACTED)
      else sanitized)"

text \<open>The loop itself: the sanitization rules, with no cache.\<close>

definition sanitize_loop :: "env \<Rightarrow> bool \<Rightarrow> 'a jsval obj \<Rightarrow> 'a jsval obj" where
  "sanitize_loop e isFromOptionalParams headers =
     foldl (sanitize_entry e isFromOptionalParams) [] headers"

text \<open>
  \<^verbatim>\<open>sanitizedHeadersCache\<close> is a \<^verbatim>\<open>Map\<close> from cache key to sanitized object: its entries
  in insertion order. \<^verbatim>\<open>sanitizeHeaders\<close> reads and writes it, so the model takes the
  cache and returns it with the result.
\<close>

type_synonym 'a cache = "(string \<times> 'a jsval obj) list"

definition cacheKey :: "'a jsval obj \<Rightarrow> bool \<Rightarrow> string" where
  "cacheKey headers isFromOptionalParams =
     (if isFromOptionalParams then ''optional_'' @ join '','' (obj_keys headers)
      else join '','' (obj_keys headers))"

definition sanitizeHeaders ::
  "env \<Rightarrow> 'a cache \<Rightarrow> 'a jsval obj \<Rightarrow> bool \<Rightarrow> 'a jsval obj \<times> 'a cache" where
  "sanitizeHeaders e cache headers isFromOptionalParams =
     (let ck = cacheKey headers isFromOptionalParams;
          hit = (if isFromOptionalParams then None else map_of cache ck) in
      case hit of
        Some cached \<Rightarrow> (cached, cache)
      | None \<Rightarrow>
          (let sanitized = sanitize_loop e isFromOptionalParams headers in
           if \<not> isFromOptionalParams \<and> length cache < 100
           then (sanitized, cache @ [(ck, sanitized)])
           else (sanitized, cache)))"

section \<open>Admission gate\<close>

text \<open>
  The class \<^verbatim>\<open>RequestLimiter\<close>. \<^verbatim>\<open>requestHistory\<close> is a \<^verbatim>\<open>Map\<close> from client id to the
  array of its time stamps, in insertion order; time stamps are the milliseconds of
  \<^verbatim>\<open>Date.now()\<close>.
\<close>

record limiter =
  activeRequests :: nat
  maxConcurrent :: nat
  requestHistory :: "(string \<times> int list) list"
  maxRequestsPerWindow :: nat
  windowMs :: int

definition new_RequestLimiter :: limiter where
  "new_RequestLimiter =
     \<lparr>activeRequests = 0, maxConcurrent = MAX_CONCURRENT_REQUESTS, requestHistory = [],
      maxRequestsPerWindow = MAX_REQUESTS_PER_WINDOW, windowMs = RATE_LIMIT_WINDOW\<rparr>"

definition checkRateLimit :: "limiter \<Rightarrow> string \<Rightarrow> int \<Rightarrow> bool" where
  "checkRateLimit l clientId now =
     (let requests = (case map_of (requestHistory l) clientId of None \<Rightarrow> [] | Some r \<Rightarrow> r);
          validRequests = filter (\<lambda>timestamp. now - timestamp < windowMs l) requests
      in length validRequests < maxRequestsPerWindow l)"

definition recordRequest :: "limiter \<Rightarrow> string \<Rightarrow> int \<Rightarrow> limiter" where
  "recordRequest l clientId now =
     (let requests =
            (case map_of (requestHistory l) clientId of None \<Rightarrow> [] | Some r \<Rightarrow> r) @ [now]
      in l\<lparr>requestHistory :=
             obj_set (requestHistory l) clientId
               (filter (\<lambda>timestamp. now - timestamp < windowMs l) requests)\<rparr>)"

definition release :: "limiter \<Rightarrow> limiter" where
  "release l = l\<lparr>activeRequests := nat (max 0 (int (activeRequests l) - 1))\<rparr>"

definition cleanupHistory :: "limiter \<Rightarrow> int \<Rightarrow> limiter" where
  "cleanupHistory l now =
     l\<lparr>requestHistory :=
         filter (\<lambda>entry. snd entry \<noteq> [])
           (map (\<lambda>entry. (fst entry, filter (\<lambda>timestamp. now - timestamp < windowMs l) (snd entry)))
              (requestHistory l))\<rparr>"

text \<open>
  \<^verbatim>\<open>acquire\<close> sleeps between two looks at \<^verbatim>\<open>activeRequests\<close>; while it sleeps the other
  calls in flight and the periodic sweep run. \<open>others k\<close> is what they do to the limiter
  during sleep number \<open>k\<close>. The loop sleeps at most 101 times: it gives up when
  \<^verbatim>\<open>attempts > 100\<close>. The result is the error thrown, if any, and the limiter as the call
  leaves it.
\<close>

function wait_for_slot ::
  "(nat \<Rightarrow> limiter \<Rightarrow> limiter) \<Rightarrow> nat \<Rightarrow> limiter \<Rightarrow> mcp_error option \<times> limiter" where
  "wait_for_slot others attempts l =
     (if activeRequests l \<ge> maxConcurrent l then
        (if attempts > 100 then (Some (McpError InvalidRequest Server_too_busy), l)
         else wait_for_slot others (attempts + 1) (others attempts l))
      else (None, l))"
  by pat_completeness auto
termination
  by (relation "measure (\<lambda>(others, attempts, l). 101 - attempts)") auto

declare wait_for_slot.simps [simp del]

text \<open>
  \<open>now_check\<close> is the clock read by \<^verbatim>\<open>checkRateLimit\<close> on entry, \<open>now_record\<close> the one read
  by \<^verbatim>\<open>recordRequest\<close> once a slot is free.
\<close>

definition acquire ::
  "(nat \<Rightarrow> limiter \<Rightarrow> limiter) \<Rightarrow> int \<Rightarrow> int \<Rightarrow> string \<Rightarrow> limiter
     \<Rightarrow> mcp_error option \<times> limiter" where
  "acquire others now_check now_record clientId l =
     (if checkRateLimit l clientId now_check then
        (case wait_for_slot others 0 l of
           (Some err, l') \<Rightarrow> (Some err, l')
         | (None, l') \<Rightarrow>
             (None, recordRequest (l'\<lparr>activeRequests := activeRequests l' + 1\<rparr>)
                      clientId now_record))
      else (Some (McpError InvalidRequest Rate_limit_exceeded), l))"

text \<open>What the other tasks have done to the limiter after the first \<open>n\<close> sleeps.\<close>

fun others_run :: "(nat \<Rightarrow> limiter \<Rightarrow> limiter) \<Rightarrow> nat \<Rightarrow> limiter \<Rightarrow> limiter" where
  "others_run others 0 l = l"
| "others_run others (Suc n) l = others n (others_run others n l)"

text \<open>The number of sleeps \<^verbatim>\<open>acquire\<close> has made when it throws the given error.\<close>

fun sleeps_before :: "mcp_error \<Rightarrow> nat" where
  "sleeps_before (McpError c Server_too_busy) = 101"
| "sleeps_before (McpError c r) = 0"

subsection \<open>The gate in the request handler\<close>

text \<open>
  The \<^verbatim>\<open>try\<close> block of the \<^verbatim>\<open>test_request\<close> handler, as far as the limiter goes:
  \<^verbatim>\<open>acquire\<close>, the transport call, \<^verbatim>\<open>release\<close>; and its \<^verbatim>\<open>catch\<close> block, which starts
  with \<^verbatim>\<open>release\<close>. The transport call returns a response or throws; \<open>during\<close> is what
  the other tasks do to the limiter while it is awaited.
\<close>

datatype 'r tool_result = Envelope 'r | Axios_error_result | Generic_error_result

definition request_through_gate ::
  "(nat \<Rightarrow> limiter \<Rightarrow> limiter) \<Rightarrow> (limiter \<Rightarrow> limiter) \<Rightarrow> int \<Rightarrow> int \<Rightarrow> (unit + 'r)
     \<Rightarrow> limiter \<Rightarrow> 'r tool_result \<times> limiter" where
  "request_through_gate others during now_check now_record transport l =
     (case acquire others now_check now_record ''default'' l of
        (Some err, l1) \<Rightarrow> (Generic_error_result, release l1)
      | (None, l1) \<Rightarrow>
          (case transport of
             Inl axios_error \<Rightarrow> (Axios_error_result, release (during l1))
           | Inr response \<Rightarrow> (Envelope response, release (during l1))))"

section \<open>Response size limit\<close>

text \<open>
  A response body is a JavaScript string, a sequence of UTF-16 code units, or a parsed
  value. \<^verbatim>\<open>Buffer.byteLength(s, 'utf8')\<close> counts the bytes of the UTF-8 encoding: a
  surrogate pair is one code point of four bytes, and a surrogate without its partner
  is encoded as U+FFFD, three bytes.
\<close>

type_synonym js_string = "16 word list"

definition is_high_surrogate :: "16 word \<Rightarrow> bool" where
  "is_high_surrogate u = (0xD800 \<le> u \<and> u \<le> 0xDBFF)"

definition is_low_surrogate :: "16 word \<Rightarrow> bool" where
  "is_low_surrogate u = (0xDC00 \<le> u \<and> u \<le> 0xDFFF)"

definition unit_bytes :: "16 word \<Rightarrow> nat" where
  "unit_bytes u = (if u < 0x80 then 1 else if u < 0x800 then 2 else 3)"

fun byteLength :: "js_string \<Rightarrow> nat" where
  "byteLength [] = 0"
| "byteLength [u] = unit_bytes u"
| "byteLength (u # v # s) =
     (if is_high_surrogate u \<and> is_low_surrogate v then 4 + byteLength s
      else unit_bytes u + byteLength (v # s))"

text \<open>A string splits no code point when every surrogate stands in a pair.\<close>

fun whole_code_points :: "js_string \<Rightarrow> bool" where
  "whole_code_points [] = True"
| "whole_code_points [u] = (\<not> is_high_surrogate u \<and> \<not> is_low_surrogate u)"
| "whole_code_points (u # v # s) =
     (if is_high_surrogate u then is_low_surrogate v \<and> whole_code_points s
      else \<not> is_low_surrogate u \<and> whole_code_points (v # s))"

datatype 'd body = Text js_string | Data 'd

record truncated =
  originalSize :: nat
  returnedSize :: nat
  truncationPoint :: nat
  sizeLimit :: nat

datatype message =
    Request_completed_successfully
  | Request_failed_with_status int
  | Response_truncated nat nat nat

text \<open>The loop \<^verbatim>\<open>while (currentSize > RESPONSE_SIZE_LIMIT && truncated.length > 0)\<close>\<close>

function truncate_loop :: "nat \<Rightarrow> js_string \<Rightarrow> nat \<Rightarrow> js_string \<times> nat" where
  "truncate_loop limit truncated currentSize =
     (if currentSize > limit \<and> length truncated > 0
      then truncate_loop limit (butlast truncated) (byteLength (butlast truncated))
      else (truncated, currentSize))"
  by pat_completeness auto
termination
  by (relation "measure (\<lambda>(limit, truncated, currentSize). length truncated)") auto

declare truncate_loop.simps [simp del]

text \<open>
  The size check of the handler on \<^verbatim>\<open>response.data\<close>. It gives the envelope's
  \<^verbatim>\<open>response.body\<close>, \<^verbatim>\<open>validation.messages\<close> and \<^verbatim>\<open>validation.truncated\<close>.
  \<open>stringify\<close> is \<^verbatim>\<open>JSON.stringify\<close> on the parsed values the transport delivers.
\<close>

definition bodyStr :: "('d \<Rightarrow> js_string) \<Rightarrow> 'd body \<Rightarrow> js_string" where
  "bodyStr stringify data = (case data of Text s \<Rightarrow> s | Data d \<Rightarrow> stringify d)"

definition check_body_size ::
  "('d \<Rightarrow> js_string) \<Rightarrow> nat \<Rightarrow> 'd body \<Rightarrow> message list
     \<Rightarrow> 'd body \<times> message list \<times> truncated option" where
  "check_body_size stringify RESPONSE_SIZE_LIMIT data messages =
     (let bodySize = byteLength (bodyStr stringify data)
      in if bodySize > RESPONSE_SIZE_LIMIT then
           (case truncate_loop RESPONSE_SIZE_LIMIT (bodyStr stringify data) bodySize of
              (truncated, currentSize) \<Rightarrow>
                (Text truncated,
                 messages @ [Response_truncated currentSize bodySize RESPONSE_SIZE_LIMIT],
                 Some \<lparr>originalSize = bodySize, returnedSize = currentSize,
                        truncationPoint = currentSize, sizeLimit = RESPONSE_SIZE_LIMIT\<rparr>))
         else (data, messages, None))"

section \<open>Endpoint and host validation\<close>

text \<open>
  The arguments of a \<^verbatim>\<open>test_request\<close> call, \<^verbatim>\<open>EndpointArgs\<close>. The tool's input schema
  types them, so \<^verbatim>\<open>endpoint\<close>, \<^verbatim>\<open>host\<close> and the header values are strings here.
  The field \<open>http_method\<close> is the argument \<^verbatim>\<open>method\<close>, any string, checked against the
  five methods. \<^verbatim>\<open>options\<close> is read by the variant with dynamic bearer tokens only.
\<close>

record ('b, 'o) EndpointArgs =
  http_method :: string
  endpoint :: string
  body :: "'b option"
  headers :: "string obj option"
  host :: "string option"
  options :: "'o obj option"

text \<open>
  What \<^verbatim>\<open>new URL(hostInput)\<close> gives, for the fields the code reads. The parser itself
  is the platform's: the model takes it as the function \<open>parse\<close>, \<open>None\<close> when it throws.
\<close>

record URL =
  protocol :: string
  hostname :: string
  origin :: string
  pathname :: string

text \<open>\<^verbatim>\<open>s.replace(/\/+$/, '')\<close> and \<^verbatim>\<open>s.replace(/^\/+|\/+$/g, '')\<close>\<close>

definition strip_trailing_slashes :: "string \<Rightarrow> string" where
  "strip_trailing_slashes s = rev (dropWhile (\<lambda>c. c = CHR ''/'') (rev s))"

definition strip_slashes :: "string \<Rightarrow> string" where
  "strip_slashes s = strip_trailing_slashes (dropWhile (\<lambda>c. c = CHR ''/'') s)"

text \<open>The loop over \<^verbatim>\<open>Object.entries(headers)\<close>: the first failing check throws.\<close>

fun validate_each_header :: "string obj \<Rightarrow> mcp_error option" where
  "validate_each_header [] = None"
| "validate_each_header ((key, val) # rest) =
     (case validateAndSanitizeInput key 256 (Some name_pattern) of
        Inl err \<Rightarrow> Some err
      | Inr _ \<Rightarrow>
          (case validateAndSanitizeInput val MAX_HEADER_VALUE_LENGTH None of
             Inl err \<Rightarrow> Some err
           | Inr _ \<Rightarrow> validate_each_header rest))"

definition is_private_hostname :: "string \<Rightarrow> bool" where
  "is_private_hostname h =
     (h = ''localhost'' \<or> h = ''127.0.0.1'' \<or> take 3 h = ''10.''
      \<or> take 8 h = ''192.168.'' \<or> take 4 h = ''172.'')"

text \<open>
  The \<^verbatim>\<open>try\<close> block on \<^verbatim>\<open>host\<close>: \<open>None\<close> when anything in it throws, and then the
  \<^verbatim>\<open>catch\<close> block throws the invalid-host error, also for a private network address.
  Assigning the empty path to \<^verbatim>\<open>url.pathname\<close> leaves the root path.
\<close>

definition normalize_host :: "(string \<Rightarrow> URL option) \<Rightarrow> env \<Rightarrow> string \<Rightarrow> string option" where
  "normalize_host parse e hostInput =
     (case parse hostInput of
        None \<Rightarrow> None
      | Some url \<Rightarrow>
          if protocol url = ''http:'' \<or> protocol url = ''https:'' then
            (if is_private_hostname (toLowerCase (hostname url))
                \<and> getenv e ''NODE_ENV'' \<noteq> Some ''development''
                \<and> getenv e ''ALLOW_PRIVATE_NETWORKS'' \<noteq> Some ''true''
             then None
             else if pathname url \<noteq> [] \<and> last (pathname url) = CHR ''/''
                     \<and> pathname url \<noteq> ''/''
             then Some (origin url @
                    (if strip_trailing_slashes (pathname url) = [] then ''/''
                     else strip_trailing_slashes (pathname url)))
             else Some (origin url @ pathname url))
          else None)"

text \<open>
  \<^verbatim>\<open>isValidEndpointArgs\<close> returns \<^verbatim>\<open>false\<close>, returns \<^verbatim>\<open>true\<close> or throws, and it
  writes the sanitized endpoint and the normalized host back into the arguments: the
  result is the error thrown, or the boolean with the arguments as they are left.
\<close>

definition validate_host ::
  "(string \<Rightarrow> URL option) \<Rightarrow> env \<Rightarrow> ('b, 'o) EndpointArgs
     \<Rightarrow> mcp_error + bool \<times> ('b, 'o) EndpointArgs" where
  "validate_host parse e args =
     (case host args of
        None \<Rightarrow> Inr (True, args)
      | Some h \<Rightarrow>
          (case validateAndSanitizeInput h MAX_URL_LENGTH None of
             Inl err \<Rightarrow> Inl err
           | Inr hostInput \<Rightarrow>
               (case normalize_host parse e hostInput of
                  None \<Rightarrow> Inl (McpError InvalidParams Invalid_host_format)
                | Some h' \<Rightarrow> Inr (True, args\<lparr>host := Some h'\<rparr>))))"

definition check_url_shape ::
  "(string \<Rightarrow> URL option) \<Rightarrow> env \<Rightarrow> ('b, 'o) EndpointArgs
     \<Rightarrow> mcp_error + bool \<times> ('b, 'o) EndpointArgs" where
  "check_url_shape parse e args =
     (let isFullUrl = URL_PATTERN_test (endpoint args) in
      if \<not> truthy (getenv e ''REST_BASE_URL'') \<and> \<not> isFullUrl
      then Inl (McpError InvalidParams REST_BASE_URL_is_not_configured)
      else if truthy (getenv e ''REST_BASE_URL'') \<and> isFullUrl
      then Inl (McpError InvalidParams REST_BASE_URL_is_configured)
      else validate_host parse e args)"

definition isValidEndpointArgs ::
  "(string \<Rightarrow> URL option) \<Rightarrow> env \<Rightarrow> ('b, 'o) EndpointArgs
     \<Rightarrow> mcp_error + bool \<times> ('b, 'o) EndpointArgs" where
  "isValidEndpointArgs parse e args0 =
     (if http_method args0 \<in> set [''GET'', ''POST'', ''PUT'', ''DELETE'', ''PATCH''] then
        (case validateAndSanitizeInput (endpoint args0) MAX_URL_LENGTH None of
           Inl err \<Rightarrow> Inl err
         | Inr sanitized \<Rightarrow>
             (let args = args0\<lparr>endpoint := sanitized\<rparr> in
              case headers args of
                None \<Rightarrow> check_url_shape parse e args
              | Some hs \<Rightarrow>
                  if length (obj_keys hs) > MAX_CUSTOM_HEADERS
                  then Inl (McpError InvalidParams (Too_many_headers (length (obj_keys hs))))
                  else (case validate_each_header hs of
                          Some err \<Rightarrow> Inl err
                        | None \<Rightarrow> check_url_shape parse e args)))
      else Inr (False, args0))"

text \<open>The handler's resolution of the full URL, after validation.\<close>

definition resolve_url :: "env \<Rightarrow> ('b, 'o) EndpointArgs \<Rightarrow> string" where
  "resolve_url e args =
     (if URL_PATTERN_test (endpoint args) then endpoint args
      else
        (let normalizedEndpoint = ''/'' @ strip_slashes (endpoint args);
             baseUrl = (if truthy (host args) then host args else getenv e ''REST_BASE_URL'')
         in (case baseUrl of None \<Rightarrow> ''undefined'' | Some b \<Rightarrow> b) @ normalizedEndpoint))"

text \<open>
  Validation and resolution as the handler runs them: a \<^verbatim>\<open>false\<close> from the validator
  is thrown as an error of its own.
\<close>

definition validate_and_resolve ::
  "(string \<Rightarrow> URL option) \<Rightarrow> env \<Rightarrow> ('b, 'o) EndpointArgs \<Rightarrow> mcp_error + string" where
  "validate_and_resolve parse e args =
     (case isValidEndpointArgs parse e args of
        Inl err \<Rightarrow> Inl err
      | Inr (ok, args') \<Rightarrow>
          if ok then Inr (resolve_url e args')
          else Inl (McpError InvalidParams Invalid_test_endpoint_arguments))"

section \<open>Authentication\<close>

definition hasBasicAuth :: "env \<Rightarrow> bool" where
  "hasBasicAuth e =
     (truthy (getenv e ''AUTH_BASIC_USERNAME'') \<and> truthy (getenv e ''AUTH_BASIC_PASSWORD''))"

definition hasBearerAuth :: "env \<Rightarrow> bool" where
  "hasBearerAuth e = truthy (getenv e ''AUTH_BEARER'')"

definition hasApiKeyAuth :: "env \<Rightarrow> bool" where
  "hasApiKeyAuth e =
     (truthy (getenv e ''AUTH_APIKEY_HEADER_NAME'') \<and> truthy (getenv e ''AUTH_APIKEY_VALUE''))"

definition hasDynamicBearerAuth :: "env \<Rightarrow> bool" where
  "hasDynamicBearerAuth e = truthy (getenv e ''AUTH_TOKEN_MODULE'')"

text \<open>\<^verbatim>\<open>Buffer.from(s).toString('base64')\<close>, on the bytes of an ASCII text.\<close>

definition b64_digit :: "nat \<Rightarrow> char" where
  "b64_digit n =
     ''ABCDEFGHIJKLMNOPQRSTUVWXYZabcdefghijklmnopqrstuvwxyz0123456789+/'' ! (n mod 64)"

fun base64 :: "nat list \<Rightarrow> string" where
  "base64 [] = []"
| "base64 [a] = [b64_digit (a div 4), b64_digit ((a mod 4) * 16), CHR ''='', CHR ''='']"
| "base64 [a, b] =
     [b64_digit (a div 4), b64_digit ((a mod 4) * 16 + b div 16),
      b64_digit ((b mod 16) * 4), CHR ''='']"
| "base64 (a # b # c # rest) =
     [b64_digit (a div 4), b64_digit ((a mod 4) * 16 + b div 16),
      b64_digit ((b mod 16) * 4 + c div 64), b64_digit (c mod 64)] @ base64 rest"

definition toString_base64 :: "string \<Rightarrow> string" where
  "toString_base64 s = base64 (map of_char s)"

definition env_string :: "env \<Rightarrow> string \<Rightarrow> string" where
  "env_string e name = (case getenv e name of None \<Rightarrow> ''undefined'' | Some v \<Rightarrow> v)"

datatype AuthMethod = Auth_none | Auth_basic | Auth_bearer | Auth_apikey | Auth_dynamic_bearer

text \<open>
  The header merge of the handler: custom headers, then the call's headers, then the
  authentication header. This is \<^verbatim>\<open>src/index.ts\<close>, which has three credential sets; it
  merges with \<^verbatim>\<open>Object.assign\<close> and sets the authentication header by assignment.
\<close>

definition merge_headers :: "env \<Rightarrow> string obj option \<Rightarrow> string obj" where
  "merge_headers e call_headers =
     (let merged = Object_assign [] (getCustomHeaders e) in
      case call_headers of None \<Rightarrow> merged | Some hs \<Rightarrow> Object_assign merged hs)"

definition add_auth :: "env \<Rightarrow> string obj \<Rightarrow> string obj" where
  "add_auth e hs =
     (if hasBasicAuth e then
        obj_put hs ''Authorization''
          (''Basic '' @ toString_base64
             (env_string e ''AUTH_BASIC_USERNAME'' @ '':'' @ env_string e ''AUTH_BASIC_PASSWORD''))
      else if hasBearerAuth e then
        obj_put hs ''Authorization'' (''Bearer '' @ env_string e ''AUTH_BEARER'')
      else if hasApiKeyAuth e then
        obj_put hs (env_string e ''AUTH_APIKEY_HEADER_NAME'') (env_string e ''AUTH_APIKEY_VALUE'')
      else hs)"

definition authMethod :: "env \<Rightarrow> AuthMethod" where
  "authMethod e =
     (if hasBasicAuth e then Auth_basic
      else if hasBearerAuth e then Auth_bearer
      else if hasApiKeyAuth e then Auth_apikey
      else Auth_none)"

subsection \<open>The variant with dynamic bearer tokens\<close>

text \<open>
  The second server source adds a fourth credential set, a token module named by
  \<^verbatim>\<open>AUTH_TOKEN_MODULE\<close>, and the class \<^verbatim>\<open>TokenProvider\<close> that caches its token.
  \<^verbatim>\<open>inflight\<close> holds a promise; the model keeps the promise's identity, of any type \<open>'p\<close>.
  The fields that memoize the loaded module are left out: they do not touch the token.
\<close>

record 'p TokenProvider =
  token :: "string option"
  tokenExpiresAt :: "int option"
  inflight :: "'p option"

datatype token_error =
    AUTH_TOKEN_MODULE_is_not_set
  | Module_must_export_a_function
  | Function_returned_empty_token
  | Token_function_failed

definition hasRequestOptions :: "'o obj option \<Rightarrow> bool" where
  "hasRequestOptions opts = (case opts of None \<Rightarrow> False | Some kvs \<Rightarrow> kvs \<noteq> [])"

definition is_space :: "char \<Rightarrow> bool" where
  "is_space c = (let n = (of_char c :: nat) in (9 \<le> n \<and> n \<le> 13) \<or> n = 32)"

definition trim :: "string \<Rightarrow> string" where
  "trim s = rev (dropWhile is_space (rev (dropWhile is_space s)))"

text \<open>
  \<^verbatim>\<open>getJwtExpMs\<close>: \<open>payload_exp\<close> stands for splitting the token at the dots, decoding
  the second part and reading a numeric \<^verbatim>\<open>exp\<close> from the parsed payload; it is \<open>None\<close>
  where the source returns \<^verbatim>\<open>undefined\<close>.
\<close>

definition getJwtExpMs :: "(string \<Rightarrow> int option) \<Rightarrow> string \<Rightarrow> int option" where
  "getJwtExpMs payload_exp tok = map_option (\<lambda>exp. exp * 1000) (payload_exp tok)"

text \<open>
  \<^verbatim>\<open>acquireToken\<close>: \<open>tokenFn\<close> is the outcome of loading the module and calling its
  function with the call's options.
\<close>

definition acquireToken ::
  "env \<Rightarrow> ('o obj option \<Rightarrow> token_error + string) \<Rightarrow> 'o obj option \<Rightarrow> token_error + string" where
  "acquireToken e tokenFn opts =
     (if truthy (getenv e ''AUTH_TOKEN_MODULE'') then
        (case tokenFn opts of
           Inl err \<Rightarrow> Inl err
         | Inr tok \<Rightarrow>
             (let trimmed = trim tok in
              if trimmed = [] then Inl Function_returned_empty_token else Inr trimmed))
      else Inl AUTH_TOKEN_MODULE_is_not_set)"

text \<open>
  \<^verbatim>\<open>getToken\<close> runs in two parts with an \<^verbatim>\<open>await\<close> between them, during which other calls
  may use the provider. The first part either returns the cached token, or joins the
  acquisition in flight, or starts an acquisition; \<open>p\<close> is the promise it would store
  in \<^verbatim>\<open>inflight\<close>.
\<close>

datatype 'p started = Return_cached string | Join_inflight 'p | Acquire

definition isValid :: "'p TokenProvider \<Rightarrow> int \<Rightarrow> bool" where
  "isValid st now =
     (truthy (token st)
      \<and> (case tokenExpiresAt st of None \<Rightarrow> True | Some expiresAt \<Rightarrow> now < expiresAt - 60000))"

definition getToken_start ::
  "'p \<Rightarrow> bool \<Rightarrow> 'o obj option \<Rightarrow> int \<Rightarrow> 'p TokenProvider \<Rightarrow> 'p started \<times> 'p TokenProvider" where
  "getToken_start p forceRefresh opts now st =
     (if \<not> forceRefresh \<and> \<not> hasRequestOptions opts \<and> isValid st now
      then (Return_cached (the (token st)), st)
      else if \<not> forceRefresh \<and> \<not> hasRequestOptions opts \<and> inflight st \<noteq> None
      then (Join_inflight (the (inflight st)), st)
      else if hasRequestOptions opts then (Acquire, st)
      else (Acquire, st\<lparr>inflight := Some p\<rparr>))"

text \<open>
  The callback given to \<^verbatim>\<open>finally\<close>, registered only without request options, and the
  part of \<^verbatim>\<open>getToken\<close> after \<^verbatim>\<open>await tokenPromise\<close>. Both run on the provider as the
  other calls have left it by then.
\<close>

definition inflight_settled :: "'o obj option \<Rightarrow> 'p TokenProvider \<Rightarrow> 'p TokenProvider" where
  "inflight_settled opts st = (if hasRequestOptions opts then st else st\<lparr>inflight := None\<rparr>)"

definition getToken_finish ::
  "(string \<Rightarrow> int option) \<Rightarrow> 'o obj option \<Rightarrow> token_error + string \<Rightarrow> 'p TokenProvider
     \<Rightarrow> (token_error + string) \<times> 'p TokenProvider" where
  "getToken_finish payload_exp opts outcome st =
     (case outcome of
        Inl err \<Rightarrow> (Inl err, st)
      | Inr tok \<Rightarrow>
          (let st1 = (if hasRequestOptions opts then st else st\<lparr>token := Some tok\<rparr>);
               expMs = getJwtExpMs payload_exp tok;
               st2 = (if hasRequestOptions opts then st1 else st1\<lparr>tokenExpiresAt := expMs\<rparr>)
           in (Inr tok, st2)))"

text \<open>
  A call of \<^verbatim>\<open>getToken\<close> that no other call interleaves with. \<open>await_inflight\<close> is the
  outcome of the promise found in \<^verbatim>\<open>inflight\<close>.
\<close>

definition getToken ::
  "env \<Rightarrow> ('o obj option \<Rightarrow> token_error + string) \<Rightarrow> (string \<Rightarrow> int option) \<Rightarrow> 'p
     \<Rightarrow> ('p \<Rightarrow> token_error + string) \<Rightarrow> bool \<Rightarrow> 'o obj option \<Rightarrow> int \<Rightarrow> 'p TokenProvider
     \<Rightarrow> (token_error + string) \<times> 'p TokenProvider" where
  "getToken e tokenFn payload_exp p await_inflight forceRefresh opts now st =
     (case getToken_start p forceRefresh opts now st of
        (Return_cached tok, st1) \<Rightarrow> (Inr tok, st1)
      | (Join_inflight q, st1) \<Rightarrow> (await_inflight q, st1)
      | (Acquire, st1) \<Rightarrow>
          getToken_finish payload_exp opts (acquireToken e tokenFn opts)
            (inflight_settled opts st1))"

text \<open>
  The authentication step of this variant's handler. \<open>provided\<close> is the outcome of
  \<^verbatim>\<open>tokenProvider.getToken(false, options)\<close>, looked at only when the token module is the
  credential set in use; when it failed the handler throws and sends nothing. The
  variant builds the headers with object literals and spreads, which define own
  properties.
\<close>

definition add_auth_dynamic ::
  "env \<Rightarrow> token_error + string \<Rightarrow> string obj \<Rightarrow> token_error + string obj" where
  "add_auth_dynamic e provided hs =
     (if hasBasicAuth e then
        Inr (obj_set hs ''Authorization''
          (''Basic '' @ toString_base64
             (env_string e ''AUTH_BASIC_USERNAME'' @ '':'' @ env_string e ''AUTH_BASIC_PASSWORD'')))
      else if hasBearerAuth e then
        Inr (obj_set hs ''Authorization'' (''Bearer '' @ env_string e ''AUTH_BEARER''))
      else if hasApiKeyAuth e then
        Inr (obj_set hs (env_string e ''AUTH_APIKEY_HEADER_NAME'')
               (env_string e ''AUTH_APIKEY_VALUE''))
      else if hasDynamicBearerAuth e then
        (case provided of
           Inl err \<Rightarrow> Inl err
         | Inr tok \<Rightarrow> Inr (obj_set hs ''Authorization'' (''Bearer '' @ tok)))
      else Inr hs)"

definition authMethod_dynamic :: "env \<Rightarrow> AuthMethod" where
  "authMethod_dynamic e =
     (if hasBasicAuth e then Auth_basic
      else if hasBearerAuth e then Auth_bearer
      else if hasApiKeyAuth e then Auth_apikey
      else if hasDynamicBearerAuth e then Auth_dynamic_bearer
      else Auth_none)"

text \<open>
  This variant's sanitizer keeps no cache and has no list of sensitive names, and its
  size check cuts the body at \<^verbatim>\<open>RESPONSE_SIZE_LIMIT\<close> code units. Where the two
  variants differ the properties below are those of \<^verbatim>\<open>src/index.ts\<close>.
\<close>

definition getCustomHeaders_dynamic :: "env \<Rightarrow> string obj" where
  "getCustomHeaders_dynamic e =
     foldl (\<lambda>hs kv. if HEADER_PREFIX_test (fst kv) then obj_put hs (drop 7 (fst kv)) (snd kv)
                     else hs) [] e"

definition sanitize_entry_dynamic ::
  "env \<Rightarrow> bool \<Rightarrow> 'a jsval obj \<Rightarrow> string \<times> 'a jsval \<Rightarrow> 'a jsval obj" where
  "sanitize_entry_dynamic e isFromOptionalParams sanitized kv =
     (let key = fst kv; val = snd kv; lowerKey = toLowerCase key in
      if isFromOptionalParams then obj_put sanitized key val
      else if lowerKey = ''authorization''
              \<or> (truthy (getenv e ''AUTH_APIKEY_HEADER_NAME'')
                  \<and> Some lowerKey
                      = map_option toLowerCase (getenv e ''AUTH_APIKEY_HEADER_NAME''))
      then obj_put sanitized key REDACTED
      else if obj_in key (getCustomHeaders_dynamic e)
      then obj_put sanitized key (if lowerKey \<in> set SAFE_HEADERS then val else REDACTED)
      else sanitized)"

definition sanitizeHeaders_dynamic :: "env \<Rightarrow> 'a jsval obj \<Rightarrow> bool \<Rightarrow> 'a jsval obj" where
  "sanitizeHeaders_dynamic e hs isFromOptionalParams =
     foldl (sanitize_entry_dynamic e isFromOptionalParams) [] hs"

definition check_body_size_dynamic ::
  "('d \<Rightarrow> js_string) \<Rightarrow> nat \<Rightarrow> 'd body \<Rightarrow> message list
     \<Rightarrow> 'd body \<times> message list \<times> truncated option" where
  "check_body_size_dynamic stringify RESPONSE_SIZE_LIMIT data messages =
     (let bodySize = byteLength (bodyStr stringify data)
      in if bodySize > RESPONSE_SIZE_LIMIT then
           (Text (take RESPONSE_SIZE_LIMIT (bodyStr stringify data)),
            messages @ [Response_truncated RESPONSE_SIZE_LIMIT bodySize RESPONSE_SIZE_LIMIT],
            Some \<lparr>originalSize = bodySize, returnedSize = RESPONSE_SIZE_LIMIT,
                   truncationPoint = RESPONSE_SIZE_LIMIT, sizeLimit = RESPONSE_SIZE_LIMIT\<rparr>)
         else (data, messages, None))"

subsection \<open>The priority rule of the specification\<close>




section \<open>Properties of the header sanitizer\<close>

text \<open>
  On an object, whose names are pairwise distinct, the loop of the sanitizer keeps or
  drops each entry by its name alone and gives each entry it keeps a value of its own.
  An entry named \<^verbatim>\<open>__proto__\<close> is never kept: the assignment makes no property.
\<close>

definition entry_kept :: "env \<Rightarrow> bool \<Rightarrow> string \<Rightarrow> bool" where
  "entry_kept e isFromOptionalParams key =
     (key \<noteq> ''__proto__''
      \<and> (toLowerCase key \<in> set SENSITIVE_HEADERS \<or> isFromOptionalParams
         \<or> toLowerCase key = ''authorization''
         \<or> (truthy (getenv e ''AUTH_APIKEY_HEADER_NAME'')
             \<and> Some (toLowerCase key)
                 = map_option toLowerCase (getenv e ''AUTH_APIKEY_HEADER_NAME''))
         \<or> obj_in key (getCustomHeaders e)))"

definition entry_value :: "env \<Rightarrow> bool \<Rightarrow> string \<Rightarrow> 'a jsval \<Rightarrow> 'a jsval" where
  "entry_value e isFromOptionalParams key val =
     (if toLowerCase key \<in> set SENSITIVE_HEADERS then REDACTED
      else if isFromOptionalParams then val
      else if toLowerCase key = ''authorization''
              \<or> (truthy (getenv e ''AUTH_APIKEY_HEADER_NAME'')
                  \<and> Some (toLowerCase key)
                      = map_option toLowerCase (getenv e ''AUTH_APIKEY_HEADER_NAME''))
      then REDACTED
      else if toLowerCase key \<in> set SAFE_HEADERS then val else REDACTED)"

lemma obj_set_fresh: "k \<notin> fst ` set ob \<Longrightarrow> obj_set ob k v = ob @ [(k, v)]"
  by (induction ob) auto

lemma obj_put_proto: "''__proto__'' \<notin> fst ` set ob \<Longrightarrow> obj_put ob ''__proto__'' v = ob"
  by (simp add: obj_put_def obj_has_def obj_keys_def)

lemma obj_put_fresh:
  "k \<noteq> ''__proto__'' \<Longrightarrow> k \<notin> fst ` set ob \<Longrightarrow> obj_put ob k v = ob @ [(k, v)]"
  by (simp add: obj_put_def obj_set_fresh)

lemma sanitize_entry_alt:
  "''__proto__'' \<notin> fst ` set acc \<Longrightarrow>
   sanitize_entry e f acc kv =
     (if entry_kept e f (fst kv) then obj_put acc (fst kv) (entry_value e f (fst kv) (snd kv))
      else acc)"
  by (cases "fst kv = ''__proto__''")
     (auto simp: sanitize_entry_def entry_kept_def entry_value_def Let_def obj_put_proto)

lemma foldl_sanitize_entry:
  "distinct (map fst acc @ map fst xs) \<Longrightarrow> ''__proto__'' \<notin> fst ` set acc \<Longrightarrow>
   foldl (sanitize_entry e f) acc xs =
     acc @ map (\<lambda>kv. (fst kv, entry_value e f (fst kv) (snd kv)))
             (filter (\<lambda>kv. entry_kept e f (fst kv)) xs)"
proof (induction xs arbitrary: acc)
  case Nil
  then show ?case by simp
next
  case (Cons kv xs)
  show ?case
  proof (cases "entry_kept e f (fst kv)")
    case True
    then have np: "fst kv \<noteq> ''__proto__''" by (simp add: entry_kept_def)
    from Cons.prems have fresh: "fst kv \<notin> fst ` set acc" by auto
    have step: "sanitize_entry e f acc kv = acc @ [(fst kv, entry_value e f (fst kv) (snd kv))]"
      using True fresh np Cons.prems(2) by (simp add: sanitize_entry_alt obj_put_fresh)
    have d: "distinct (map fst (acc @ [(fst kv, entry_value e f (fst kv) (snd kv))]) @ map fst xs)"
      using Cons.prems by auto
    have n: "''__proto__'' \<notin> fst ` set (acc @ [(fst kv, entry_value e f (fst kv) (snd kv))])"
      using Cons.prems(2) np by auto
    from Cons.IH [OF d n] show ?thesis using True step by simp
  next
    case False
    have "distinct (map fst acc @ map fst xs)" using Cons.prems by auto
    from Cons.IH [OF this Cons.prems(2)] show ?thesis
      using False Cons.prems(2) by (simp add: sanitize_entry_alt)
  qed
qed

lemma sanitize_loop_entries:
  "distinct (obj_keys h) \<Longrightarrow>
   sanitize_loop e f h =
     map (\<lambda>kv. (fst kv, entry_value e f (fst kv) (snd kv)))
       (filter (\<lambda>kv. entry_kept e f (fst kv)) h)"
  using foldl_sanitize_entry [of "[]" h e f] by (simp add: sanitize_loop_def obj_keys_def)

lemma entry_value_idem: "entry_value e f k (entry_value e f k v) = entry_value e f k v"
  by (simp add: entry_value_def)

lemma sanitize_loop_keys:
  "distinct (obj_keys h) \<Longrightarrow> distinct (obj_keys (sanitize_loop e f h))"
  by (simp add: sanitize_loop_entries obj_keys_def comp_def distinct_map_filter)

text \<open>
  The sanitization rules themselves are idempotent, for both values of the flag: a second
  pass keeps the names the first pass kept and leaves their values as they are.
\<close>

lemma sanitize_loop_idempotent:
  assumes "distinct (obj_keys h)"
  shows "sanitize_loop e f (sanitize_loop e f h) = sanitize_loop e f h"
proof -
  have d: "distinct (obj_keys (sanitize_loop e f h))"
    using assms by (rule sanitize_loop_keys)
  show ?thesis
    unfolding sanitize_loop_entries [OF d]
    by (simp add: sanitize_loop_entries [OF assms] filter_map comp_def entry_value_idem)
qed

text \<open>A call that misses the cache, or is caller-supplied, returns what the rules give.\<close>

lemma sanitizeHeaders_miss:
  "isFromOptionalParams \<or> map_of cache (cacheKey h isFromOptionalParams) = None \<Longrightarrow>
   fst (sanitizeHeaders e cache h isFromOptionalParams) = sanitize_loop e isFromOptionalParams h"
  by (auto simp: sanitizeHeaders_def Let_def)

text \<open>
  Claim C4. The result cache is meant to have no observable effect: whatever calls came
  before, \<^verbatim>\<open>sanitizeHeaders(h, false)\<close> should return what the sanitization rules give
  for \<open>h\<close>. The cache key is built from the header names only, so it does not hold.
  With \<^verbatim>\<open>HEADER_Accept\<close> in the environment, a first call on \<^verbatim>\<open>{Accept: "*/*"}\<close> stores
  its result under the key \<^verbatim>\<open>Accept\<close>; a later call on \<^verbatim>\<open>{Accept: "text/html"}\<close> gets that
  stored result back, where the rules give \<^verbatim>\<open>{Accept: "text/html"}\<close>.
\<close>

theorem sanitizer_cache_returns_stale_value:
  "snd (sanitizeHeaders [(''HEADER_Accept'', ''*/*'')] []
          [(''Accept'', JString ''*/*'' :: unit jsval)] False)
     = [(''Accept'', [(''Accept'', JString ''*/*'')])]
   \<and> fst (sanitizeHeaders [(''HEADER_Accept'', ''*/*'')]
            [(''Accept'', [(''Accept'', JString ''*/*'')])]
            [(''Accept'', JString ''text/html'' :: unit jsval)] False)
     = [(''Accept'', JString ''*/*'')]
   \<and> sanitize_loop [(''HEADER_Accept'', ''*/*'')] False
        [(''Accept'', JString ''text/html'' :: unit jsval)]
     = [(''Accept'', JString ''text/html'')]"
  by code_simp

text \<open>
  What a caller-supplied object is sanitized to: the values of sensitive names are
  replaced, every other value is kept, and an entry named \<^verbatim>\<open>__proto__\<close> is left out.
  The cache is not touched.
\<close>

lemma caller_supplied_headers_result:
  assumes "distinct (obj_keys h)"
  shows "sanitizeHeaders e cache h True =
     (map (\<lambda>kv. (fst kv,
                  if toLowerCase (fst kv) \<in> set SENSITIVE_HEADERS then REDACTED else snd kv))
        (filter (\<lambda>kv. fst kv \<noteq> ''__proto__'') h),
      cache)"
  using assms
  by (simp add: sanitizeHeaders_def sanitize_loop_entries entry_kept_def entry_value_def)

text \<open>
  Claim C5. Of a header object sanitized as caller-supplied, every header with a
  sensitive name should come back redacted and every other header with its value. The
  second half fails for a header named \<^verbatim>\<open>__proto__\<close>: the validator accepts the name, and
  the loop's \<^verbatim>\<open>sanitized[key] = value\<close> on the fresh object runs the prototype setter and
  makes no property. The call's headers \<^verbatim>\<open>{"__proto__": "on", "X-Trace": "7"}\<close> pass
  validation and are sanitized to \<^verbatim>\<open>{"X-Trace": "7"}\<close>.
\<close>

theorem caller_header_named_proto_is_dropped:
  "validate_each_header [(''__proto__'', ''on''), (''X-Trace'', ''7'')] = None
   \<and> sanitizeHeaders [] []
        [(''__proto__'', JString ''on''), (''X-Trace'', JString ''7'' :: unit jsval)] True
     = ([(''X-Trace'', JString ''7'')], [])"
  by code_simp

text \<open>
  Claim C8. Sanitizing a sanitized object again should give the same object. The rules
  are idempotent (\<open>sanitize_loop_idempotent\<close>), but the function with its cache is not.
  With \<^verbatim>\<open>HEADER_Accept\<close> in the environment and the result for \<^verbatim>\<open>{Accept: "*/*"}\<close> in
  the cache, the object \<^verbatim>\<open>{Accept: "text/html", X-Trace: "7"}\<close> is sanitized to
  \<^verbatim>\<open>{Accept: "text/html"}\<close>; sanitizing that result again finds the key \<^verbatim>\<open>Accept\<close> in
  the cache and returns \<^verbatim>\<open>{Accept: "*/*"}\<close>.
\<close>

theorem cached_sanitizer_second_pass_differs:
  "snd (sanitizeHeaders [(''HEADER_Accept'', ''*/*'')] []
          [(''Accept'', JString ''*/*'' :: unit jsval)] False)
     = [(''Accept'', [(''Accept'', JString ''*/*'')])]
   \<and> sanitizeHeaders [(''HEADER_Accept'', ''*/*'')] [(''Accept'', [(''Accept'', JString ''*/*'')])]
      [(''Accept'', JString ''text/html'' :: unit jsval), (''X-Trace'', JString ''7'')] False
     = ([(''Accept'', JString ''text/html'')],
        [(''Accept'', [(''Accept'', JString ''*/*'')]),
         (''Accept,X-Trace'', [(''Accept'', JString ''text/html'')])])
   \<and> sanitizeHeaders [(''HEADER_Accept'', ''*/*'')]
        [(''Accept'', [(''Accept'', JString ''*/*'')]),
         (''Accept,X-Trace'', [(''Accept'', JString ''text/html'' :: unit jsval)])]
        [(''Accept'', JString ''text/html'')] False
     = ([(''Accept'', JString ''*/*'')],
        [(''Accept'', [(''Accept'', JString ''*/*'')]),
         (''Accept,X-Trace'', [(''Accept'', JString ''text/html'')])])"
  by code_simp

text \<open>
  A header that is not caller-supplied and bears a name every object inherits, such as
  \<^verbatim>\<open>constructor\<close>, counts as a custom header and is redacted; other unknown names are
  dropped.
\<close>

lemma inherited_name_is_redacted:
  "sanitize_loop [] False
     [(''constructor'', JString ''x'' :: unit jsval), (''server'', JString ''nginx'')]
     = [(''constructor'', JString ''[REDACTED]'')]"
  by code_simp

text \<open>The variant with dynamic bearer tokens redacts nothing a caller supplies.\<close>

lemma sanitizeHeaders_dynamic_keeps_caller_values:
  "sanitizeHeaders_dynamic [] [(''Authorization'', JString ''Bearer abc'' :: unit jsval)] True
     = [(''Authorization'', JString ''Bearer abc'')]"
  by code_simp

section \<open>Properties of the admission gate\<close>

lemma others_run_shift:
  "others_run (\<lambda>k. f (Suc k)) n (f 0 l) = others_run f (Suc n) l"
  by (induction n) auto

lemma others_run_idle: "others_run (\<lambda>k l. l) n l = l"
  by (induction n) auto

text \<open>
  When the wait for a slot fails, it has slept through all the rounds that were left,
  and the limiter is what the other tasks made of it meanwhile.
\<close>

lemma wait_for_slot_failure:
  "wait_for_slot others attempts l = (Some err, l') \<Longrightarrow> attempts \<le> 101 \<Longrightarrow>
   err = McpError InvalidRequest Server_too_busy \<and>
   l' = others_run (\<lambda>k. others (attempts + k)) (101 - attempts) l"
proof (induction others attempts l rule: wait_for_slot.induct)
  case (1 others attempts l)
  show ?case
  proof (cases "activeRequests l \<ge> maxConcurrent l")
    case False
    then show ?thesis
      using "1.prems" by (simp add: wait_for_slot.simps [of others attempts l])
  next
    case True
    show ?thesis
    proof (cases "attempts > 100")
      case True
      with \<open>activeRequests l \<ge> maxConcurrent l\<close> "1.prems" show ?thesis
        by (simp add: wait_for_slot.simps [of others attempts l])
    next
      case False
      then have eq: "wait_for_slot others (attempts + 1) (others attempts l) = (Some err, l')"
        using True "1.prems" by (simp add: wait_for_slot.simps [of others attempts l])
      from "1.IH" [OF True False eq] False
      have ih: "err = McpError InvalidRequest Server_too_busy"
        "l' = others_run (\<lambda>k. others (attempts + 1 + k)) (101 - (attempts + 1))
                (others attempts l)"
        by auto
      have "101 - attempts = Suc (101 - (attempts + 1))" using False by simp
      then show ?thesis
        using ih others_run_shift [of "\<lambda>k. others (attempts + k)" "101 - (attempts + 1)" l]
        by simp
    qed
  qed
qed

text \<open>
  Claim C9. A call of \<^verbatim>\<open>acquire\<close> that fails, by the rate limit or for want of a slot,
  writes nothing to the limiter: the limiter it leaves is the one it found, changed only
  by what the other tasks did while it slept. Nothing is recorded in \<^verbatim>\<open>requestHistory\<close>
  and \<^verbatim>\<open>activeRequests\<close> is not counted up. A call refused by the rate limit has not
  slept at all; a call that found no slot has slept 101 times.
\<close>

theorem failed_acquire_writes_nothing:
  assumes "acquire others now_check now_record clientId l = (Some err, l')"
  shows "l' = others_run others (sleeps_before err) l"
proof (cases "checkRateLimit l clientId now_check")
  case False
  then show ?thesis using assms by (auto simp: acquire_def)
next
  case True
  then obtain l1 where w: "wait_for_slot others 0 l = (Some err, l1)" and "l' = l1"
    using assms by (auto simp: acquire_def split: prod.splits option.splits)
  from wait_for_slot_failure [OF w] show ?thesis using \<open>l' = l1\<close> by simp
qed

theorem failed_acquire_writes_nothing_witness:
  "acquire (\<lambda>k l. l) 1000 1000 ''default'' (new_RequestLimiter\<lparr>activeRequests := 10\<rparr>)
     = (Some (McpError InvalidRequest Server_too_busy), new_RequestLimiter\<lparr>activeRequests := 10\<rparr>)
   \<and> new_RequestLimiter\<lparr>activeRequests := 10\<rparr>
     = others_run (\<lambda>k l. l) (sleeps_before (McpError InvalidRequest Server_too_busy))
         (new_RequestLimiter\<lparr>activeRequests := 10\<rparr>)"
proof -
  have h: "acquire (\<lambda>k l. l) 1000 1000 ''default'' (new_RequestLimiter\<lparr>activeRequests := 10\<rparr>)
     = (Some (McpError InvalidRequest Server_too_busy), new_RequestLimiter\<lparr>activeRequests := 10\<rparr>)"
    by code_simp
  from failed_acquire_writes_nothing [OF h] h show ?thesis by blast
qed

text \<open>
  Claim C3. The handler should call \<^verbatim>\<open>release\<close> once for each \<^verbatim>\<open>acquire\<close> that succeeded
  and never for one that failed. \<^verbatim>\<open>acquire\<close> is called inside the \<^verbatim>\<open>try\<close> block whose
  \<^verbatim>\<open>catch\<close> block releases, so a failed \<^verbatim>\<open>acquire\<close> is followed by a \<^verbatim>\<open>release\<close>. With
  one other call in flight and 100 requests in the window, a further call is refused by
  the rate limit and leaves \<^verbatim>\<open>activeRequests\<close> at 0 while the other call is still
  running.
\<close>

theorem refused_call_releases_slot_of_other_call:
  "acquire (\<lambda>k l. l) 1000 1000 ''default''
      (new_RequestLimiter\<lparr>activeRequests := 1,
         requestHistory := [(''default'', replicate 100 0)]\<rparr>)
     = (Some (McpError InvalidRequest Rate_limit_exceeded),
        new_RequestLimiter\<lparr>activeRequests := 1,
          requestHistory := [(''default'', replicate 100 0)]\<rparr>)
   \<and> request_through_gate (\<lambda>k l. l) (\<lambda>l. l) 1000 1000 (Inr response)
      (new_RequestLimiter\<lparr>activeRequests := 1,
         requestHistory := [(''default'', replicate 100 0)]\<rparr>)
     = (Generic_error_result,
        new_RequestLimiter\<lparr>activeRequests := 0,
          requestHistory := [(''default'', replicate 100 0)]\<rparr>)"
  by (simp add: request_through_gate_def acquire_def checkRateLimit_def new_RequestLimiter_def
        release_def MAX_REQUESTS_PER_WINDOW_def RATE_LIMIT_WINDOW_def MAX_CONCURRENT_REQUESTS_def)

text \<open>On the paths where \<^verbatim>\<open>acquire\<close> succeeded the handler releases once.\<close>

lemma admitted_call_releases_once:
  "acquire others now_check now_record ''default'' l = (None, l1) \<Longrightarrow>
   snd (request_through_gate others during now_check now_record transport l)
     = release (during l1)"
  by (simp add: request_through_gate_def split: sum.splits)

section \<open>Properties of the response size limit\<close>

text \<open>
  The loop returns a prefix of the string it was given, with its byte length, and that
  length is within the limit.
\<close>

lemma truncate_loop_result:
  "currentSize = byteLength truncated \<Longrightarrow>
   truncate_loop limit truncated currentSize = (t, c) \<Longrightarrow>
   c = byteLength t \<and> c \<le> limit \<and> prefix t truncated"
proof (induction limit truncated currentSize rule: truncate_loop.induct)
  case (1 limit truncated currentSize)
  show ?case
  proof (cases "currentSize > limit \<and> length truncated > 0")
    case True
    then have eq:
      "truncate_loop limit (butlast truncated) (byteLength (butlast truncated)) = (t, c)"
      using "1.prems"(2) by (simp add: truncate_loop.simps [of limit truncated])
    from "1.IH" [OF True refl eq]
    have "c = byteLength t \<and> c \<le> limit \<and> prefix t (butlast truncated)" .
    moreover have "prefix (butlast truncated) truncated"
      by (simp add: prefixeq_butlast)
    ultimately show ?thesis by (meson prefix_order.trans)
  next
    case False
    then have tc: "t = truncated" "c = currentSize"
      using "1.prems"(2) by (auto simp add: truncate_loop.simps [of limit truncated])
    have "currentSize \<le> limit"
    proof (cases "length truncated > 0")
      case True
      then show ?thesis using False by simp
    next
      case False
      then show ?thesis using "1.prems"(1) by simp
    qed
    then show ?thesis using tc "1.prems"(1) by simp
  qed
qed

text \<open>
  The sizes: a body within the limit is returned as it is, with no truncation record; a
  larger one is cut to a prefix of at most the limit's bytes, and the record holds the
  original size, the size returned as \<^verbatim>\<open>returnedSize\<close> and as \<^verbatim>\<open>truncationPoint\<close>, and
  the limit.
\<close>

lemma check_body_size_sizes:
  assumes "check_body_size stringify L data msgs = (body', msgs', tr)"
  shows "if byteLength (bodyStr stringify data) \<le> L
         then body' = data \<and> msgs' = msgs \<and> tr = None
         else (\<exists>t. body' = Text t \<and> byteLength t \<le> L \<and> prefix t (bodyStr stringify data)
                 \<and> tr = Some \<lparr>originalSize = byteLength (bodyStr stringify data),
                              returnedSize = byteLength t, truncationPoint = byteLength t,
                              sizeLimit = L\<rparr>)"
proof (cases "byteLength (bodyStr stringify data) \<le> L")
  case True
  then show ?thesis using assms by (simp add: check_body_size_def Let_def)
next
  case False
  obtain t c
    where tc: "truncate_loop L (bodyStr stringify data) (byteLength (bodyStr stringify data))
                 = (t, c)"
    by (cases "truncate_loop L (bodyStr stringify data) (byteLength (bodyStr stringify data))")
      blast
  from truncate_loop_result [OF refl tc]
  have r: "c = byteLength t" "c \<le> L" "prefix t (bodyStr stringify data)" by auto
  show ?thesis using False assms tc r by (auto simp add: check_body_size_def Let_def)
qed

text \<open>
  Claim C2. A response body over the limit should be cut at a character boundary and
  never inside a code point. The loop removes one UTF-16 code unit at a time, and a code
  point above U+FFFF is two units. The body \<^verbatim>\<open>Hi\<close>, space, U+1F600 has 7 bytes; with a
  limit of 6 the loop removes the low surrogate only, the rest measures 6 bytes, and the
  body returned ends in the high surrogate alone. The sizes recorded are right.
\<close>

theorem truncation_splits_surrogate_pair:
  "check_body_size stringify 6 (Text [0x48, 0x69, 0x20, 0xD83D, 0xDE00])
      [Request_completed_successfully]
     = (Text [0x48, 0x69, 0x20, 0xD83D],
        [Request_completed_successfully, Response_truncated 6 7 6],
        Some \<lparr>originalSize = 7, returnedSize = 6, truncationPoint = 6, sizeLimit = 6\<rparr>)
   \<and> whole_code_points [0x48, 0x69, 0x20, 0xD83D, 0xDE00]
   \<and> \<not> whole_code_points [0x48, 0x69, 0x20, 0xD83D]"
  by (simp add: check_body_size_def bodyStr_def truncate_loop.simps is_high_surrogate_def
        is_low_surrogate_def unit_bytes_def Let_def)

text \<open>
  The variant with dynamic bearer tokens cuts at the limit counted in code units: the
  body of two letters e with acute accent has 4 bytes, and with a limit of 3 it is
  returned whole while the record says 3 bytes.
\<close>

lemma check_body_size_dynamic_counts_units:
  "check_body_size_dynamic stringify 3 (Text [0xE9, 0xE9]) []
     = (Text [0xE9, 0xE9], [Response_truncated 3 4 3],
        Some \<lparr>originalSize = 4, returnedSize = 3, truncationPoint = 3, sizeLimit = 3\<rparr>)"
  by (simp add: check_body_size_dynamic_def bodyStr_def unit_bytes_def Let_def)

text \<open>
  Claim C10. When a body that is not a string is over the limit, \<^verbatim>\<open>response.body\<close>
  becomes a string, a proper prefix of the body's JSON text; when the serialized size of
  a body, string or not, is within the limit, \<^verbatim>\<open>response.body\<close> is the original value.
\<close>

theorem structured_body_becomes_prefix_string:
  assumes "check_body_size stringify L data msgs = (body', msgs', tr)"
  shows "(byteLength (bodyStr stringify data) \<le> L \<longrightarrow> body' = data)
       \<and> (data = Data d \<and> byteLength (stringify d) > L \<longrightarrow>
            (\<exists>t. body' = Text t \<and> strict_prefix t (stringify d)))"
proof -
  note sz = check_body_size_sizes [OF assms]
  have "body' = data" if "byteLength (bodyStr stringify data) \<le> L"
    using sz that by simp
  moreover have "\<exists>t. body' = Text t \<and> strict_prefix t (stringify d)"
    if "data = Data d" and big: "byteLength (stringify d) > L"
  proof -
    have s: "bodyStr stringify data = stringify d" using that by (simp add: bodyStr_def)
    from sz s big obtain t
      where t: "body' = Text t" "byteLength t \<le> L" "prefix t (stringify d)" by auto
    have "t \<noteq> stringify d" using t(2) big by auto
    with t show ?thesis by (auto simp: strict_prefix_def)
  qed
  ultimately show ?thesis by blast
qed

theorem structured_body_becomes_prefix_string_witness:
  "check_body_size (\<lambda>d::unit. [0x7B, 0x22, 0x61, 0x22, 0x3A, 0x31, 0x7D]) 4 (Data ())
       [Request_completed_successfully]
     = (Text [0x7B, 0x22, 0x61, 0x22],
        [Request_completed_successfully, Response_truncated 4 7 4],
        Some \<lparr>originalSize = 7, returnedSize = 4, truncationPoint = 4, sizeLimit = 4\<rparr>)
   \<and> byteLength [0x7B, 0x22, 0x61, 0x22, 0x3A, 0x31, 0x7D] > 4
   \<and> (\<exists>t. Text [0x7B, 0x22, 0x61, 0x22] = (Text t :: unit body)
          \<and> strict_prefix t [0x7B, 0x22, 0x61, 0x22, 0x3A, 0x31, 0x7D])"
proof -
  have h: "check_body_size (\<lambda>d::unit. [0x7B, 0x22, 0x61, 0x22, 0x3A, 0x31, 0x7D]) 4 (Data ())
       [Request_completed_successfully]
     = (Text [0x7B, 0x22, 0x61, 0x22],
        [Request_completed_successfully, Response_truncated 4 7 4],
        Some \<lparr>originalSize = 7, returnedSize = 4, truncationPoint = 4, sizeLimit = 4\<rparr>)"
    by code_simp
  have big: "byteLength [0x7B, 0x22, 0x61, 0x22, 0x3A, 0x31, 0x7D] > 4"
    by code_simp
  from structured_body_becomes_prefix_string [OF h, of "()"] big
  have "\<exists>t. Text [0x7B, 0x22, 0x61, 0x22] = (Text t :: unit body)
          \<and> strict_prefix t [0x7B, 0x22, 0x61, 0x22, 0x3A, 0x31, 0x7D]"
    by simp
  with h big show ?thesis by blast
qed

section \<open>Properties of validation\<close>

text \<open>
  Without a base URL the validator accepts full URLs only, whatever the host argument
  is: the check of the URL shape comes before the host is looked at and does not read it.
\<close>

lemma validate_host_endpoint:
  "validate_host parse e args = Inr (ok, args') \<Longrightarrow> endpoint args' = endpoint args"
  by (auto simp: validate_host_def split: option.splits sum.splits)

lemma check_url_shape_without_base:
  "\<not> truthy (getenv e ''REST_BASE_URL'') \<Longrightarrow> check_url_shape parse e args = Inr (ok, args')
   \<Longrightarrow> URL_PATTERN_test (endpoint args')"
  using validate_host_endpoint [of parse e args ok args']
  by (auto simp: check_url_shape_def Let_def split: if_splits)

lemma accepted_without_base_is_full_url:
  assumes "\<not> truthy (getenv e ''REST_BASE_URL'')"
    and "isValidEndpointArgs parse e args = Inr (True, args')"
  shows "URL_PATTERN_test (endpoint args')"
  using assms(2) check_url_shape_without_base [OF assms(1)]
  by (auto simp: isValidEndpointArgs_def Let_def split: if_splits sum.splits option.splits)

text \<open>
  Claim C1. With no base URL configured, a path as endpoint and a valid host override,
  validation should succeed and the URL should be the host followed by the normalized
  path. The call \<^verbatim>\<open>{method: "GET", endpoint: "/users", host: "https://api.example.com"}\<close>
  is refused with \<^verbatim>\<open>InvalidParams\<close>, whatever the URL parser says of the host. The
  handler's own resolution, which the call never reaches, gives
  \<^verbatim>\<open>https://api.example.com/users\<close> on the arguments as they were passed.
\<close>

theorem path_with_host_refused_without_base_url:
  "validate_and_resolve parse []
     \<lparr>http_method = ''GET'', endpoint = ''/users'', body = None, headers = None,
      host = Some ''https://api.example.com'', options = None\<rparr>
     = Inl (McpError InvalidParams REST_BASE_URL_is_not_configured)
   \<and> resolve_url []
     \<lparr>http_method = ''GET'', endpoint = ''/users'', body = None, headers = None,
      host = Some ''https://api.example.com'', options = None\<rparr>
     = ''https://api.example.com/users''"
  by (simp add: validate_and_resolve_def isValidEndpointArgs_def validateAndSanitizeInput_def
        MAX_URL_LENGTH_def check_url_shape_def URL_PATTERN_test_def toLowerCase_def
        lower_char_def getenv_def is_control_def resolve_url_def strip_slashes_def
        strip_trailing_slashes_def)

text \<open>With a base URL the same call is accepted and resolved against the host.\<close>

lemma path_with_host_accepted_with_base_url:
  "validate_and_resolve
     (\<lambda>h. if h = ''https://api.example.com/v1/''
          then Some \<lparr>protocol = ''https:'', hostname = ''api.example.com'',
                      origin = ''https://api.example.com'', pathname = ''/v1/''\<rparr>
          else None)
     [(''REST_BASE_URL'', ''http://localhost:3000'')]
     \<lparr>http_method = ''GET'', endpoint = ''/users'', body = None, headers = None,
      host = Some ''https://api.example.com/v1/'', options = None\<rparr>
     = Inr ''https://api.example.com/v1/users''"
  by code_simp

section \<open>Properties of authentication\<close>



text \<open>
  \<^verbatim>\<open>src/index.ts\<close> has the same chain without the token module, and does the same
  whenever no token module is configured and the API key header is not called
  \<^verbatim>\<open>__proto__\<close>, a name it would assign and the variant would define.
\<close>

lemma add_auth_agrees:
  "\<not> hasDynamicBearerAuth e \<Longrightarrow> env_string e ''AUTH_APIKEY_HEADER_NAME'' \<noteq> ''__proto__'' \<Longrightarrow>
   add_auth_dynamic e provided hs = Inr (add_auth e hs) \<and> authMethod_dynamic e = authMethod e"
  by (simp add: add_auth_dynamic_def add_auth_def authMethod_dynamic_def authMethod_def
        obj_put_def)

lemma basic_auth_example:
  "add_auth [(''AUTH_BASIC_USERNAME'', ''admin''), (''AUTH_BASIC_PASSWORD'', ''secret'')] []
     = [(''Authorization'', ''Basic YWRtaW46c2VjcmV0'')]"
  by code_simp

text \<open>
  Claim C7. A call of \<^verbatim>\<open>getToken\<close> with request options that are not empty neither
  reads nor writes the shared token: its first part starts an acquisition and leaves
  the provider as it is, also when a valid token is cached or an acquisition is in
  flight; no callback clears \<^verbatim>\<open>inflight\<close>; its second part returns the outcome of its
  own acquisition and leaves the provider as it finds it. So the whole call returns what
  \<^verbatim>\<open>acquireToken\<close> gives for these options, and \<^verbatim>\<open>token\<close>, \<^verbatim>\<open>tokenExpiresAt\<close> and
  \<^verbatim>\<open>inflight\<close> are unchanged.
\<close>

theorem request_options_bypass_token_cache:
  assumes "hasRequestOptions opts"
  shows "getToken_start p forceRefresh opts now st = (Acquire, st)
     \<and> inflight_settled opts st' = st'
     \<and> getToken_finish payload_exp opts outcome st' = (outcome, st')
     \<and> getToken e tokenFn payload_exp p await_inflight forceRefresh opts now st
         = (acquireToken e tokenFn opts, st)"
  using assms
  by (auto simp: getToken_start_def inflight_settled_def getToken_finish_def getToken_def Let_def
      split: sum.splits)

theorem request_options_bypass_token_cache_witness:
  "hasRequestOptions (Some [(''tenant'', ''blue'')])
   \<and> getToken [(''AUTH_TOKEN_MODULE'', ''./token.mjs'')] (\<lambda>opts. Inr '' fresh-token '')
       (\<lambda>tok. None) (2::nat) (\<lambda>q. Inr ''joined-token'') False (Some [(''tenant'', ''blue'')])
       1000 \<lparr>token = Some ''cached-token'', tokenExpiresAt = None, inflight = Some 0\<rparr>
     = (Inr ''fresh-token'',
        \<lparr>token = Some ''cached-token'', tokenExpiresAt = None, inflight = Some 0\<rparr>)"
proof -
  have h: "hasRequestOptions (Some [(''tenant'', ''blue'')])"
    by (simp add: hasRequestOptions_def)
  have a: "acquireToken [(''AUTH_TOKEN_MODULE'', ''./token.mjs'')]
             (\<lambda>opts. Inr '' fresh-token '') (Some [(''tenant'', ''blue'')])
           = Inr ''fresh-token''"
    by code_simp
  have g: "getToken [(''AUTH_TOKEN_MODULE'', ''./token.mjs'')] (\<lambda>opts. Inr '' fresh-token '')
       (\<lambda>tok. None) (2::nat) (\<lambda>q. Inr ''joined-token'') False (Some [(''tenant'', ''blue'')])
       1000 \<lparr>token = Some ''cached-token'', tokenExpiresAt = None, inflight = Some 0\<rparr>
     = (acquireToken [(''AUTH_TOKEN_MODULE'', ''./token.mjs'')]
          (\<lambda>opts. Inr '' fresh-token '') (Some [(''tenant'', ''blue'')]),
        \<lparr>token = Some ''cached-token'', tokenExpiresAt = None, inflight = Some 0\<rparr>)"
    by (rule request_options_bypass_token_cache
          [OF h, THEN conjunct2, THEN conjunct2, THEN conjunct2])
  show ?thesis using h g a by simp
qed

text \<open>Without request options the same call returns the cached token.\<close>

lemma shared_call_returns_cached_token:
  "getToken [(''AUTH_TOKEN_MODULE'', ''./token.mjs'')] (\<lambda>opts. Inr '' fresh-token '')
       (\<lambda>tok. None) (2::nat) (\<lambda>q. Inr ''joined-token'') False (None :: string obj option)
       1000 \<lparr>token = Some ''cached-token'', tokenExpiresAt = None, inflight = Some 0\<rparr>
     = (Inr ''cached-token'',
        \<lparr>token = Some ''cached-token'', tokenExpiresAt = None, inflight = Some 0\<rparr>)"
  by code_simp

end
